theory Spec2Isabelle
  imports Complex_Main "HOL-Library.AList"
begin

section \<open>Time and errors\<close>

text \<open>
  Instants and durations are counted in nanoseconds, as \<open>time.Duration\<close> does.
  \<open>time.Time.Sub\<close> saturates at the smallest and largest \<open>Duration\<close>
  (a signed 64-bit count of nanoseconds).
\<close>

type_synonym Time = int
type_synonym Duration = int

definition Second :: Duration where
  "Second = 1000000000"

definition maxDuration :: Duration where
  "maxDuration = 2 ^ 63 - 1"

definition minDuration :: Duration where
  "minDuration = - (2 ^ 63)"

text \<open>
  The clock counts from the Unix epoch. The zero \<open>time.Time\<close> is the first instant of
  the year 1, which lies 62135596800 seconds before it.
\<close>

definition zeroTime :: Time where
  "zeroTime = - 62135596800 * Second"

definition time_Sub :: "Time \<Rightarrow> Time \<Rightarrow> Duration" where
  "time_Sub t u =
     (let d = t - u in
      if d > maxDuration then maxDuration
      else if d < minDuration then minDuration
      else d)"

text \<open>
  A Go \<open>error\<close> value. \<open>APIError\<close> is \<open>*common.APIError\<close> with its four
  fields (code, type, message, details); \<open>Errorf\<close> is an error built by \<open>fmt.Errorf\<close> or \<open>errors.New\<close>
  without a wrapped cause; \<open>Wrapf\<close> is \<open>fmt.Errorf\<close> with \<open>%w\<close>, which
  yields a value of another dynamic type than its cause; \<open>ContextErr\<close> is
  \<open>ctx.Err()\<close>; \<open>Panic\<close> is a run-time panic, which is no returned value but
  unwinds the caller. The source's messages are Chinese text; the model carries an
  English rendering, and no function below inspects a message.
\<close>

datatype error =
    APIError int string string string
  | Errorf string
  | Wrapf string error
  | ContextErr
  | Panic string

definition NewAPIError :: "int \<Rightarrow> string \<Rightarrow> string \<Rightarrow> string \<Rightarrow> error" where
  "NewAPIError code errorType message details = APIError code errorType message details"

section \<open>Strings\<close>

text \<open>
  A Go string is its sequence of bytes. The functions of the package \<open>strings\<close> below
  are modelled on ASCII text: \<open>ToUpper\<close>, \<open>ToLower\<close> and \<open>EqualFold\<close> change the
  case of the letters \<open>A\<close> to \<open>Z\<close> only, and \<open>TrimSpace\<close> trims the six ASCII
  white-space characters (Go also maps and trims the non-ASCII letters and spaces of
  Unicode).
\<close>

definition asciiLower :: "char \<Rightarrow> char" where
  "asciiLower c =
     (case map_of (zip ''ABCDEFGHIJKLMNOPQRSTUVWXYZ'' ''abcdefghijklmnopqrstuvwxyz'') c of
        None \<Rightarrow> c | Some l \<Rightarrow> l)"

definition asciiUpper :: "char \<Rightarrow> char" where
  "asciiUpper c =
     (case map_of (zip ''abcdefghijklmnopqrstuvwxyz'' ''ABCDEFGHIJKLMNOPQRSTUVWXYZ'') c of
        None \<Rightarrow> c | Some u \<Rightarrow> u)"

definition ToLower :: "string \<Rightarrow> string" where
  "ToLower s = map asciiLower s"

definition ToUpper :: "string \<Rightarrow> string" where
  "ToUpper s = map asciiUpper s"


definition isSpace :: "char \<Rightarrow> bool" where
  "isSpace c = (c \<in> set [CHR 0x09, CHR 0x0A, CHR 0x0B, CHR 0x0C, CHR 0x0D, CHR 0x20])"

definition TrimSpace :: "string \<Rightarrow> string" where
  "TrimSpace s = rev (dropWhile isSpace (rev (dropWhile isSpace s)))"

definition squote :: char where
  "squote = CHR 0x27"

definition dquote :: char where
  "dquote = CHR 0x22"

definition HasPrefix :: "string \<Rightarrow> string \<Rightarrow> bool" where
  "HasPrefix s p = (take (length p) s = p)"

definition HasSuffix :: "string \<Rightarrow> string \<Rightarrow> bool" where
  "HasSuffix s p = (length p \<le> length s \<and> drop (length s - length p) s = p)"

section \<open>Circuit breaker\<close>

datatype CircuitBreakerState = StateClosed | StateOpen | StateHalfOpen

record CircuitBreakerConfig =
  MaxFailures :: int
  Timeout :: Duration
  MaxRequests :: int
  Interval :: Duration

definition DefaultCircuitBreakerConfig :: CircuitBreakerConfig where
  "DefaultCircuitBreakerConfig =
     \<lparr>MaxFailures = 5, Timeout = 60 * Second, MaxRequests = 3, Interval = 60 * Second\<rparr>"

text \<open>
  The breaker's fields. The state-change callback runs on a goroutine of its own and
  cannot touch these fields, so it is not part of the state. The two counters are Go
  \<open>int\<close>s (64 bits) and unbounded here.
\<close>

record CircuitBreaker =
  cb_config :: CircuitBreakerConfig
  state :: CircuitBreakerState
  failures :: int
  requests :: int
  lastFailTime :: Time


definition NewCircuitBreaker :: "CircuitBreakerConfig option \<Rightarrow> CircuitBreaker" where
  "NewCircuitBreaker config =
     \<lparr>cb_config = (case config of None \<Rightarrow> DefaultCircuitBreakerConfig | Some c \<Rightarrow> c),
      state = StateClosed, failures = 0, requests = 0, lastFailTime = zeroTime\<rparr>"

definition setState :: "CircuitBreaker \<Rightarrow> CircuitBreakerState \<Rightarrow> CircuitBreaker" where
  "setState cb newState = cb\<lparr>state := newState\<rparr>"

text \<open>\<open>allowRequest\<close> reads the clock (\<open>now\<close>) and returns the breaker with the verdict.\<close>

definition allowRequest :: "CircuitBreaker \<Rightarrow> Time \<Rightarrow> CircuitBreaker \<times> bool" where
  "allowRequest cb now =
     (case state cb of
        StateClosed \<Rightarrow> (cb, True)
      | StateOpen \<Rightarrow>
          if time_Sub now (lastFailTime cb) > Timeout (cb_config cb)
          then ((setState cb StateHalfOpen)\<lparr>requests := 0\<rparr>, True)
          else (cb, False)
      | StateHalfOpen \<Rightarrow> (cb, requests cb < MaxRequests (cb_config cb)))"

definition recordResult :: "CircuitBreaker \<Rightarrow> Time \<Rightarrow> error option \<Rightarrow> CircuitBreaker" where
  "recordResult cb now err =
     (case state cb of
        StateClosed \<Rightarrow>
          if err \<noteq> None
          then (let cb1 = cb\<lparr>failures := failures cb + 1, lastFailTime := now\<rparr> in
                if failures cb1 \<ge> MaxFailures (cb_config cb1)
                then setState cb1 StateOpen else cb1)
          else cb\<lparr>failures := 0\<rparr>
      | StateHalfOpen \<Rightarrow>
          (let cb1 = cb\<lparr>requests := requests cb + 1\<rparr> in
           if err \<noteq> None
           then (setState cb1 StateOpen)\<lparr>lastFailTime := now\<rparr>
           else if requests cb1 \<ge> MaxRequests (cb_config cb1)
                then (setState cb1 StateClosed)\<lparr>failures := 0, requests := 0\<rparr>
                else cb1)
      | StateOpen \<Rightarrow> cb)"

definition circuitOpenError :: error where
  "circuitOpenError = Errorf ''circuit breaker open, request rejected''"

text \<open>
  \<open>Execute\<close> runs \<open>operation\<close> on the world \<open>w\<close> it acts on (the network) only when
  the breaker admits the request. \<open>now1\<close> is the clock read by \<open>allowRequest\<close>,
  \<open>now2\<close> the one read by \<open>recordResult\<close>.
\<close>

definition Execute ::
  "CircuitBreaker \<Rightarrow> Time \<Rightarrow> Time \<Rightarrow> ('w \<Rightarrow> 'w \<times> error option) \<Rightarrow> 'w
     \<Rightarrow> CircuitBreaker \<times> 'w \<times> error option" where
  "Execute cb now1 now2 operation w =
     (case allowRequest cb now1 of
        (cb1, False) \<Rightarrow> (cb1, w, Some circuitOpenError)
      | (cb1, True) \<Rightarrow>
          (case operation w of
             (w', err) \<Rightarrow> (recordResult cb1 now2 err, w', err)))"

definition Reset :: "CircuitBreaker \<Rightarrow> CircuitBreaker" where
  "Reset cb = (setState cb StateClosed)\<lparr>failures := 0, requests := 0, lastFailTime := zeroTime\<rparr>"

text \<open>
  The breaker's fields change only inside \<open>allowRequest\<close>, \<open>recordResult\<close> and
  \<open>Reset\<close>, each under the mutex: callers on any number of goroutines interleave
  these three steps.
\<close>

datatype cb_step = StepAllow Time | StepRecord Time "error option" | StepReset

fun cb_apply :: "CircuitBreaker \<Rightarrow> cb_step \<Rightarrow> CircuitBreaker" where
  "cb_apply cb (StepAllow now) = fst (allowRequest cb now)"
| "cb_apply cb (StepRecord now err) = recordResult cb now err"
| "cb_apply cb StepReset = Reset cb"

text \<open>
  A caller that issues \<open>Execute\<close> calls one after the other, each with an operation
  of a given outcome: \<open>(now1, now2, err)\<close> per call.
\<close>

fun executes :: "CircuitBreaker \<Rightarrow> (Time \<times> Time \<times> error option) list \<Rightarrow> CircuitBreaker" where
  "executes cb [] = cb"
| "executes cb ((now1, now2, err) # rest) =
     executes (fst (Execute cb now1 now2 (\<lambda>w::unit. (w, err)) ())) rest"

text \<open>
  The invariant of the breaker under configuration \<open>cfg\<close>: the configuration never
  changes, and while the state is CLOSED the failure counter stays below the threshold.
\<close>

definition cb_inv :: "CircuitBreakerConfig \<Rightarrow> CircuitBreaker \<Rightarrow> bool" where
  "cb_inv cfg cb = (cb_config cb = cfg \<and>
     (if state cb = StateClosed then 0 \<le> failures cb \<and> failures cb < MaxFailures cfg else True))"

section \<open>Token bucket\<close>

text \<open>
  \<open>float64\<close> quantities of the bucket (the rate, the token count) are real numbers:
  rounding, infinities and NaN are not modelled. The counters of the statistics are
  \<open>int64\<close> in the source and unbounded here.
\<close>

record RateLimiterConfig =
  Rate :: real
  Burst :: int
  Window :: Duration

definition DefaultRateLimiterConfig :: RateLimiterConfig where
  "DefaultRateLimiterConfig = \<lparr>Rate = 10, Burst = 20, Window = Second\<rparr>"

record RateLimiterStats =
  TotalRequests :: int
  AllowedRequests :: int
  RejectedRequests :: int
  LastRequestTime :: Time

record TokenBucket =
  tb_config :: RateLimiterConfig
  tokens :: real
  lastRefill :: Time
  stats :: RateLimiterStats

definition NewTokenBucket :: "RateLimiterConfig option \<Rightarrow> Time \<Rightarrow> TokenBucket" where
  "NewTokenBucket config now =
     (let c = (case config of None \<Rightarrow> DefaultRateLimiterConfig | Some c \<Rightarrow> c) in
      \<lparr>tb_config = c, tokens = real_of_int (Burst c), lastRefill = now,
       stats = \<lparr>TotalRequests = 0, AllowedRequests = 0, RejectedRequests = 0,
                LastRequestTime = zeroTime\<rparr>\<rparr>)"

text \<open>\<open>Duration.Seconds\<close>: whole seconds plus the remaining nanoseconds over \<open>1e9\<close>.\<close>

definition Seconds :: "Duration \<Rightarrow> real" where
  "Seconds d = real_of_int d / 1000000000"

definition refill :: "TokenBucket \<Rightarrow> Time \<Rightarrow> TokenBucket" where
  "refill tb now =
     (let elapsed = time_Sub now (lastRefill tb) in
      if elapsed \<le> 0 then tb
      else
        (let tokensToAdd = Rate (tb_config tb) * Seconds elapsed;
             t1 = tokens tb + tokensToAdd;
             t2 = (if t1 > real_of_int (Burst (tb_config tb))
                   then real_of_int (Burst (tb_config tb)) else t1)
         in tb\<lparr>tokens := t2, lastRefill := now\<rparr>))"

text \<open>
  \<open>updateStats\<close> reads the clock once more for \<open>LastRequestTime\<close>; the model
  records the instant its caller has just read.
\<close>

definition updateStats :: "TokenBucket \<Rightarrow> bool \<Rightarrow> Time \<Rightarrow> TokenBucket" where
  "updateStats tb isRequest now =
     (if isRequest
      then tb\<lparr>stats := (stats tb)\<lparr>TotalRequests := TotalRequests (stats tb) + 1,
                                   LastRequestTime := now\<rparr>\<rparr>
      else tb\<lparr>stats := (stats tb)\<lparr>AllowedRequests := AllowedRequests (stats tb) + 1\<rparr>\<rparr>)"

definition updateRejectedStats :: "TokenBucket \<Rightarrow> TokenBucket" where
  "updateRejectedStats tb =
     tb\<lparr>stats := (stats tb)\<lparr>RejectedRequests := RejectedRequests (stats tb) + 1\<rparr>\<rparr>"

definition Allow :: "TokenBucket \<Rightarrow> Time \<Rightarrow> TokenBucket \<times> bool" where
  "Allow tb now =
     (let tb1 = updateStats tb True now;
          tb2 = refill tb1 now
      in if tokens tb2 \<ge> 1
         then (updateStats (tb2\<lparr>tokens := tokens tb2 - 1\<rparr>) False now, True)
         else (updateRejectedStats tb2, False))"

definition AllowN :: "TokenBucket \<Rightarrow> int \<Rightarrow> Time \<Rightarrow> TokenBucket \<times> bool" where
  "AllowN tb n now =
     (if n \<le> 0 then (tb, True)
      else
        (let tb1 = updateStats tb True now;
             tb2 = refill tb1 now
         in if tokens tb2 \<ge> real_of_int n
            then (updateStats (tb2\<lparr>tokens := tokens tb2 - real_of_int n\<rparr>) False now, True)
            else (updateRejectedStats tb2, False)))"

text \<open>
  The conversion \<open>time.Duration(x)\<close> of a \<open>float64\<close> truncates towards zero. Go
  leaves the result to the implementation when the truncated value is no \<open>int64\<close>
  (also for the infinity a division by zero yields): \<open>oor\<close> is what the platform
  answers then. The product of two \<open>Duration\<close>s wraps around at 64 bits.
\<close>

definition trunc :: "real \<Rightarrow> int" where
  "trunc x = (if x \<ge> 0 then \<lfloor>x\<rfloor> else \<lceil>x\<rceil>)"

definition float64_to_int64 :: "int \<Rightarrow> real \<Rightarrow> int" where
  "float64_to_int64 oor x =
     (if - (2 ^ 63) \<le> trunc x \<and> trunc x < 2 ^ 63 then trunc x else oor)"

definition wrap64 :: "int \<Rightarrow> int" where
  "wrap64 i = (i + 2 ^ 63) mod 2 ^ 64 - 2 ^ 63"

definition calculateWaitTime :: "int \<Rightarrow> TokenBucket \<Rightarrow> int \<Rightarrow> Duration" where
  "calculateWaitTime oor tb n =
     (let needed = real_of_int n - tokens tb in
      if needed \<le> 0 then 0
      else wrap64
        ((if Rate (tb_config tb) = 0 then oor
          else float64_to_int64 oor (needed / Rate (tb_config tb))) * Second))"

text \<open>
  \<open>WaitN\<close> blocks in a \<open>select\<close> on the context and the timer: \<open>CtxDone\<close> is the
  run in which the context is done first, \<open>TimerFired now2\<close> the one in which the
  timer fires and the second \<open>AllowN\<close> reads the clock \<open>now2\<close>. The result is the
  bucket, the returned error (\<open>None\<close> is \<open>nil\<close>) and the duration the timer was
  armed with (\<open>None\<close> when \<open>WaitN\<close> returns without creating a timer).
\<close>

datatype wait_event = CtxDone | TimerFired Time

definition WaitN ::
  "int \<Rightarrow> TokenBucket \<Rightarrow> int \<Rightarrow> Time \<Rightarrow> wait_event
     \<Rightarrow> TokenBucket \<times> error option \<times> Duration option" where
  "WaitN oor tb n now1 ev =
     (if n \<le> 0 then (tb, None, None)
      else
        (case AllowN tb n now1 of
           (tb1, True) \<Rightarrow> (tb1, None, None)
         | (tb1, False) \<Rightarrow>
             (let waitTime = calculateWaitTime oor tb1 n in
              if waitTime \<le> 0 then (tb1, None, None)
              else
                (case ev of
                   CtxDone \<Rightarrow> (tb1, Some ContextErr, Some waitTime)
                 | TimerFired now2 \<Rightarrow>
                     (case AllowN tb1 n now2 of
                        (tb2, True) \<Rightarrow> (tb2, None, Some waitTime)
                      | (tb2, False) \<Rightarrow> (tb2, Some (Errorf ''wait timed out''), Some waitTime))))))"










section \<open>Retry policy and the HTTP client\<close>

record RetryConfig =
  MaxRetries :: int
  InitialDelay :: Duration
  MaxDelay :: Duration
  Multiplier :: real

definition DefaultRetryConfig :: RetryConfig where
  "DefaultRetryConfig =
     \<lparr>MaxRetries = 3, InitialDelay = Second, MaxDelay = 30 * Second, Multiplier = 2\<rparr>"

text \<open>
  \<open>IsRetryableError\<close> takes a Go \<open>error\<close>, which may be \<open>nil\<close> (\<open>None\<close>). The type
  assertion \<open>err.(*APIError)\<close> holds for an \<open>APIError\<close> value only, not for an error
  that wraps one.
\<close>

definition IsRetryableError :: "error option \<Rightarrow> bool" where
  "IsRetryableError err =
     (case err of
        None \<Rightarrow> False
      | Some (APIError code ty msg details) \<Rightarrow>
          if ty = ''auth'' then False
          else if code \<ge> 400 \<and> code < 500 \<and> code \<noteq> 429 then False
          else code \<ge> 500 \<or> code = 429
      | Some _ \<Rightarrow> True)"


text \<open>
  What the connection pool hands back for a request: the status, the headers, and what
  \<open>io.ReadAll\<close> makes of the body.
\<close>

record HTTPResponse =
  http_StatusCode :: int
  http_Header :: "(string \<times> string list) list"
  http_Body :: "error + string"

record APIResponse =
  StatusCode :: int
  Body :: string
  Headers :: "(string \<times> string list) list"

text \<open>
  The client's retry configuration, circuit breaker and rate limiter. Its configuration,
  token cache and connection pool are part of the world \<open>'w\<close> on which a request acts.
\<close>

record Client =
  retryConfig :: RetryConfig
  circuitBreaker :: CircuitBreaker
  rateLimiter :: TokenBucket

text \<open>
  \<open>doSingleRequest\<close>. The closure handed to the breaker (token, URL, body, headers,
  \<open>connectionPool.ExecuteRequest\<close>) is \<open>send\<close>: it acts on the world and yields an
  error or the HTTP response, which the closure stores in the captured variable
  \<open>resp\<close>. \<open>unmarshal\<close> is \<open>json.Unmarshal\<close> into the \<open>{code, msg}\<close> structure
  (\<open>None\<close> when it fails). The clocks \<open>tA\<close>, \<open>t1\<close>, \<open>t2\<close> are those read by the
  rate limiter, by \<open>allowRequest\<close> and by \<open>recordResult\<close>.
\<close>

definition rateLimitError :: error where
  "rateLimitError = NewAPIError 429 ''rate_limit'' ''request rate too high, retry later'' ''''"

definition doSingleRequest ::
  "(string \<Rightarrow> (int \<times> string) option) \<Rightarrow> ('w \<Rightarrow> 'w \<times> (error + HTTPResponse))
     \<Rightarrow> Client \<Rightarrow> 'w \<Rightarrow> Time \<times> Time \<times> Time
     \<Rightarrow> Client \<times> 'w \<times> (error + APIResponse)" where
  "doSingleRequest unmarshal send c w clk =
     (case clk of (tA, t1, t2) \<Rightarrow>
      (case Allow (rateLimiter c) tA of
         (rl, False) \<Rightarrow> (c\<lparr>rateLimiter := rl\<rparr>, w, Inl rateLimitError)
       | (rl, True) \<Rightarrow>
          (case Execute (circuitBreaker c) t1 t2
                  (\<lambda>(w0, resp0). case send w0 of
                       (w1, Inl e) \<Rightarrow> ((w1, resp0), Some e)
                     | (w1, Inr r) \<Rightarrow> ((w1, Some r), None))
                  (w, None) of
             (cb, (w', resp), Some err) \<Rightarrow>
               (c\<lparr>rateLimiter := rl, circuitBreaker := cb\<rparr>, w', Inl err)
           | (cb, (w', None), None) \<Rightarrow>
               (c\<lparr>rateLimiter := rl, circuitBreaker := cb\<rparr>, w',
                Inl (Panic ''nil pointer dereference''))
           | (cb, (w', Some r), None) \<Rightarrow>
               (c\<lparr>rateLimiter := rl, circuitBreaker := cb\<rparr>, w',
                (case http_Body r of
                   Inl e \<Rightarrow> Inl (Wrapf ''reading the response body failed: %w'' e)
                 | Inr respBody \<Rightarrow>
                     if http_StatusCode r < 200 \<or> http_StatusCode r \<ge> 300
                     then (case unmarshal respBody of
                             Some (code, msg) \<Rightarrow>
                               if code \<noteq> 0
                               then Inl (NewAPIError code ''api'' (''API error %d: '' @ msg) '''')
                               else Inl (Errorf ''API request failed: status=%d'')
                           | None \<Rightarrow> Inl (Errorf ''API request failed: status=%d''))
                     else Inr \<lparr>StatusCode = http_StatusCode r, Body = respBody,
                               Headers = http_Header r\<rparr>)))))"




text \<open>
  Sample values: a network that counts the requests it receives and refuses each of them,
  a body decoder that never succeeds, a context that is never cancelled with the clock
  standing at 0, a client whose bucket is empty, and a client whose breaker has opened
  at the instant 0 on its fifth failure.
\<close>

definition failingSend :: "nat \<Rightarrow> nat \<times> (error + HTTPResponse)" where
  "failingSend w = (w + 1, Inl (Errorf ''connection refused''))"

definition noEnvelope :: "string \<Rightarrow> (int \<times> string) option" where
  "noEnvelope body = None"


definition drainedClient :: Client where
  "drainedClient =
     \<lparr>retryConfig = DefaultRetryConfig,
      circuitBreaker = NewCircuitBreaker None,
      rateLimiter = (NewTokenBucket None 0)\<lparr>tokens := 0\<rparr>\<rparr>"






section \<open>Raw DELETE through the callback bridge\<close>


text \<open>
  The records of the wire format, with the fields that \<open>getTableID\<close> and
  \<open>executeRawDelete\<close> read.
\<close>

record Table =
  TableID :: string
  Name :: string




record SQLCommand =
  Type :: string
  Table :: string
  Where :: string
  RawSQL :: string
  ShowType :: string
















section \<open>Values and their conversion\<close>

text \<open>
  A \<open>float64\<close> is the real number it denotes, an infinity or NaN; rounding to the
  nearest representable number is not modelled. A value held in an \<open>interface{}\<close> is
  \<open>nil\<close>, an integer of one of the ten integer types, a float, a boolean, a string, or
  a value of any other dynamic type (named by its type).
\<close>

datatype float64 = Float real | PosInf | NegInf | NaN

datatype intkind =
  KInt | KInt8 | KInt16 | KInt32 | KInt64 | KUint | KUint8 | KUint16 | KUint32 | KUint64

datatype govalue =
    GoNil
  | GoInteger intkind int
  | GoFloat32 float64
  | GoFloat64 float64
  | GoBool bool
  | GoString string
  | GoOther string

subsection \<open>The package strconv\<close>

definition isDigit :: "char \<Rightarrow> bool" where
  "isDigit c = (c \<in> set ''0123456789'')"

definition digitVal :: "char \<Rightarrow> nat" where
  "digitVal c =
     (case map_of (zip ''0123456789'' [0, 1, 2, 3, 4, 5, 6, 7, 8, 9]) c of
        None \<Rightarrow> 0 | Some d \<Rightarrow> d)"

definition digitsVal :: "string \<Rightarrow> nat" where
  "digitsVal ds = foldl (\<lambda>n c. 10 * n + digitVal c) 0 ds"

text \<open>
  \<open>strconv.Atoi\<close>: an optional sign and decimal digits, within the range of \<open>int\<close>
  (64 bits). \<open>None\<close> stands for a non-nil error.
\<close>

definition Atoi :: "string \<Rightarrow> int option" where
  "Atoi s =
     (let (neg, ds) = (case s of
                         c # r \<Rightarrow> if c = CHR ''-'' then (True, r)
                                  else if c = CHR ''+'' then (False, r) else (False, s)
                       | [] \<Rightarrow> (False, s));
          v = (if neg then - int (digitsVal ds) else int (digitsVal ds))
      in if ds = [] \<or> \<not> list_all isDigit ds then None
         else if v < - (2 ^ 63) \<or> 2 ^ 63 \<le> v then None
         else Some v)"

text \<open>
  \<open>strconv.ParseFloat(s, 64)\<close> on the special values and on decimal numbers: an
  optional sign, digits with at most one point and at least one digit, and an optional
  exponent. A number whose magnitude rounds to infinity is a range error. The
  hexadecimal form and digits separated by underscores, which Go accepts as well, are
  syntax errors of this model.
\<close>

definition parseSpecial :: "string \<Rightarrow> float64 option" where
  "parseSpecial s =
     (let l = ToLower s in
      if l = ''inf'' \<or> l = ''+inf'' \<or> l = ''infinity'' \<or> l = ''+infinity'' then Some PosInf
      else if l = ''-inf'' \<or> l = ''-infinity'' then Some NegInf
      else if l = ''nan'' then Some NaN
      else None)"

definition pow10 :: "int \<Rightarrow> real" where
  "pow10 k = (if 0 \<le> k then 10 ^ nat k else 1 / 10 ^ nat (- k))"

definition parseExponent :: "string \<Rightarrow> int option" where
  "parseExponent r =
     (case r of
        [] \<Rightarrow> Some 0
      | c # r1 \<Rightarrow>
          if c = CHR ''e'' \<or> c = CHR ''E''
          then (let (eneg, ds) = (case r1 of
                                    c1 # r2 \<Rightarrow> if c1 = CHR ''-'' then (True, r2)
                                               else if c1 = CHR ''+'' then (False, r2)
                                               else (False, r1)
                                  | [] \<Rightarrow> (False, r1))
                in if ds = [] \<or> \<not> list_all isDigit ds then None
                   else Some (if eneg then - int (digitsVal ds) else int (digitsVal ds)))
          else None)"

definition parseDecimal :: "string \<Rightarrow> float64 option" where
  "parseDecimal s =
     (let (neg, r0) = (case s of
                         c # r \<Rightarrow> if c = CHR ''-'' then (True, r)
                                  else if c = CHR ''+'' then (False, r) else (False, s)
                       | [] \<Rightarrow> (False, s));
          ip = takeWhile isDigit r0;
          r1 = dropWhile isDigit r0;
          (fp, r2) = (case r1 of
                        c # r \<Rightarrow> if c = CHR ''.''
                                 then (takeWhile isDigit r, dropWhile isDigit r)
                                 else ([], r1)
                      | [] \<Rightarrow> ([], r1))
      in if ip = [] \<and> fp = [] then None
         else
           (case parseExponent r2 of
              None \<Rightarrow> None
            | Some e \<Rightarrow>
                (let m = real (digitsVal (ip @ fp)) * pow10 (e - int (length fp)) in
                 if 2 ^ 1024 - 2 ^ 970 \<le> m then None
                 else Some (Float (if neg then - m else m)))))"

definition ParseFloat :: "string \<Rightarrow> float64 option" where
  "ParseFloat s =
     (case parseSpecial s of
        Some f \<Rightarrow> Some f
      | None \<Rightarrow> parseDecimal s)"

definition ParseBool :: "string \<Rightarrow> bool option" where
  "ParseBool s =
     (if s \<in> set [''1'', ''t'', ''T'', ''TRUE'', ''true'', ''True''] then Some True
      else if s \<in> set [''0'', ''f'', ''F'', ''FALSE'', ''false'', ''False''] then Some False
      else None)"

subsection \<open>The SQL parser's values\<close>

text \<open>\<open>SQLParser.parseValue\<close>, the classifier of the value lists, SET and WHERE clauses.\<close>

definition parseValue :: "string \<Rightarrow> govalue" where
  "parseValue value0 =
     (let v = TrimSpace value0 in
      if ToUpper v = ''NULL'' then GoNil
      else
        (case ParseFloat v of
           Some num \<Rightarrow> GoFloat64 num
         | None \<Rightarrow>
             (case ParseBool v of
                Some b \<Rightarrow> GoBool b
              | None \<Rightarrow> GoString v)))"

text \<open>
  The slice expression \<open>valueStr[1 : len(valueStr)-1]\<close> that removes a pair of quotes.
  On a string of one byte, which is its own prefix and suffix, it panics.
\<close>

definition unquote :: "string \<Rightarrow> error + string" where
  "unquote valueStr =
     (if length valueStr < 2 then Inl (Panic ''slice bounds out of range'')
      else Inr (take (length valueStr - 2) (drop 1 valueStr)))"

definition isQuoted :: "string \<Rightarrow> bool" where
  "isQuoted valueStr =
     ((HasPrefix valueStr [squote] \<and> HasSuffix valueStr [squote])
      \<or> (HasPrefix valueStr [dquote] \<and> HasSuffix valueStr [dquote]))"

text \<open>
  \<open>SQLParser.ParseValue\<close>, the exported classifier beside it: a quoted value is a
  string, then \<open>Atoi\<close>, \<open>ParseFloat\<close> and \<open>ParseBool\<close> are tried in this order.
\<close>

definition ParseValue :: "string \<Rightarrow> error + govalue" where
  "ParseValue valueStr =
     (if valueStr = [] then Inr (GoString [])
      else if isQuoted valueStr
      then (case unquote valueStr of Inl e \<Rightarrow> Inl e | Inr s \<Rightarrow> Inr (GoString s))
      else
        (case Atoi valueStr of
           Some intVal \<Rightarrow> Inr (GoInteger KInt intVal)
         | None \<Rightarrow>
             (case ParseFloat valueStr of
                Some floatVal \<Rightarrow> Inr (GoFloat64 floatVal)
              | None \<Rightarrow>
                  (case ParseBool valueStr of
                     Some boolVal \<Rightarrow> Inr (GoBool boolVal)
                   | None \<Rightarrow> Inr (GoString valueStr)))))"

text \<open>
  \<open>SQLParser.parseValueList\<close>: the loop over the bytes of the list, with the values
  found so far, the token being read, and the quote that is open (if any).
\<close>

fun parseValueList_loop ::
  "string \<Rightarrow> govalue list \<Rightarrow> string \<Rightarrow> bool \<Rightarrow> char \<Rightarrow> govalue list \<times> string" where
  "parseValueList_loop [] values current inQuotes quoteChar = (values, current)"
| "parseValueList_loop (c # cs) values current inQuotes quoteChar =
     (if \<not> inQuotes then
        (if c = squote \<or> c = dquote
         then parseValueList_loop cs values current True c
         else if c = CHR '',''
         then parseValueList_loop cs (values @ [parseValue (TrimSpace current)]) [] inQuotes quoteChar
         else parseValueList_loop cs values (current @ [c]) inQuotes quoteChar)
      else
        (if c = quoteChar
         then parseValueList_loop cs values current False (CHR 0x00)
         else parseValueList_loop cs values (current @ [c]) inQuotes quoteChar))"

definition parseValueList :: "string \<Rightarrow> govalue list" where
  "parseValueList valuesStr =
     (case parseValueList_loop valuesStr [] [] False (CHR 0x00) of
        (values, current) \<Rightarrow>
          if length current > 0 then values @ [parseValue (TrimSpace current)] else values)"

text \<open>
  \<open>SQLParser.parseSetClause\<close>. \<open>Split\<close> cuts at every comma, \<open>SplitN(a, "=", 2)\<close> at
  the first equals sign. The Go map of the result is the list of its assignments, a
  later one for the same field replacing the earlier.
\<close>

fun Split :: "char \<Rightarrow> string \<Rightarrow> string list" where
  "Split sep [] = [[]]"
| "Split sep (c # cs) =
     (if c = sep then [] # Split sep cs
      else (case Split sep cs of
              p # ps \<Rightarrow> (c # p) # ps
            | [] \<Rightarrow> [[c]]))"

definition SplitN2 :: "char \<Rightarrow> string \<Rightarrow> string list" where
  "SplitN2 sep s =
     (if sep \<in> set s
      then [takeWhile (\<lambda>c. c \<noteq> sep) s, drop 1 (dropWhile (\<lambda>c. c \<noteq> sep) s)]
      else [s])"

fun parseSetClause_loop ::
  "string list \<Rightarrow> (string \<times> govalue) list \<Rightarrow> error + (string \<times> govalue) list" where
  "parseSetClause_loop [] updateFields = Inr updateFields"
| "parseSetClause_loop (assignment # rest) updateFields =
     (case SplitN2 (CHR ''='') (TrimSpace assignment) of
        [field, valueStr0] \<Rightarrow>
          (case (if isQuoted (TrimSpace valueStr0) then unquote (TrimSpace valueStr0)
                 else Inr (TrimSpace valueStr0)) of
             Inl e \<Rightarrow> Inl e
           | Inr valueStr \<Rightarrow>
               parseSetClause_loop rest
                 (AList.update (TrimSpace field) (parseValue valueStr) updateFields))
      | _ \<Rightarrow> Inl (Errorf ''invalid assignment: %s''))"

definition parseSetClause :: "string \<Rightarrow> error + (string \<times> govalue) list" where
  "parseSetClause setClause = parseSetClause_loop (Split (CHR '','') setClause) []"

subsection \<open>Host values to wire values\<close>






section \<open>Regular expressions\<close>

text \<open>
  The regular expressions of the source, built from Go's syntax by hand: \<open>Lit\<close> a
  byte as it stands; \<open>CI\<close> a byte under the flag \<open>(?i)\<close>, given in lower case;
  \<open>Class\<close> and \<open>NClass\<close> one byte inside or outside a set; \<open>Cat\<close>, \<open>Alt\<close>,
  \<open>Star\<close>, \<open>Plus\<close> and \<open>Group n\<close> for sequence, \<open>|\<close>, \<open>*\<close>, \<open>+\<close> and the
  \<open>n\<close>-th pair of parentheses. The text is read byte by byte: a character outside
  ASCII counts as the bytes of its encoding, and \<open>(?i)\<close> folds the letters \<open>A\<close> to
  \<open>Z\<close> and the two characters Go folds to \<open>s\<close> and \<open>k\<close> (U+017F and U+212A).
\<close>

datatype re =
    Eps
  | Lit char
  | CI char
  | Class "char list"
  | NClass "char list"
  | Cat re re
  | Alt re re
  | Star re
  | Plus re
  | Group nat re

text \<open>
  A state of the matcher is the text still to read and the groups captured so far. The
  matcher returns the states after a match of a prefix, in the order in which a
  backtracking matcher finds them: Go's leftmost-first rule keeps the first. A starred
  expression repeats as often as it can first, each pass reading at least one byte.
\<close>

type_synonym mstate = "string \<times> (nat \<times> string) list"

primrec iterate :: "(mstate \<Rightarrow> mstate list) \<Rightarrow> nat \<Rightarrow> mstate \<Rightarrow> mstate list" where
  "iterate f 0 st = [st]"
| "iterate f (Suc n) st =
     concat (map (iterate f n) (filter (\<lambda>st'. length (fst st') < length (fst st)) (f st))) @ [st]"

definition oneByte :: "(char \<Rightarrow> bool) \<Rightarrow> mstate \<Rightarrow> mstate list" where
  "oneByte P st =
     (case fst st of
        [] \<Rightarrow> []
      | x # xs \<Rightarrow> if P x then [(xs, snd st)] else [])"

definition folded :: "char \<Rightarrow> mstate \<Rightarrow> mstate list" where
  "folded c st =
     (if c = CHR ''s'' \<and> take 2 (fst st) = [CHR 0xC5, CHR 0xBF] then [(drop 2 (fst st), snd st)]
      else if c = CHR ''k'' \<and> take 3 (fst st) = [CHR 0xE2, CHR 0x84, CHR 0xAA]
      then [(drop 3 (fst st), snd st)]
      else [])"

definition capture :: "nat \<Rightarrow> mstate \<Rightarrow> mstate \<Rightarrow> mstate" where
  "capture n st st' =
     (fst st', AList.update n (take (length (fst st) - length (fst st')) (fst st)) (snd st'))"

primrec run :: "re \<Rightarrow> mstate \<Rightarrow> mstate list" where
  "run Eps st = [st]"
| "run (Lit c) st = oneByte (\<lambda>x. x = c) st"
| "run (CI c) st = oneByte (\<lambda>x. asciiLower x = c) st @ folded c st"
| "run (Class cs) st = oneByte (\<lambda>x. x \<in> set cs) st"
| "run (NClass cs) st = oneByte (\<lambda>x. x \<notin> set cs) st"
| "run (Cat a b) st = concat (map (run b) (run a st))"
| "run (Alt a b) st = run a st @ run b st"
| "run (Star a) st = iterate (run a) (length (fst st)) st"
| "run (Plus a) st = concat (map (\<lambda>st'. iterate (run a) (length (fst st')) st') (run a st))"
| "run (Group n a) st = map (capture n st) (run a st)"

text \<open>\<open>Regexp.MatchString\<close>: a match that starts at some position of the text.\<close>

fun MatchString :: "re \<Rightarrow> string \<Rightarrow> bool" where
  "MatchString r [] = (run r ([], []) \<noteq> [])"
| "MatchString r (c # cs) = (run r (c # cs, []) \<noteq> [] \<or> MatchString r cs)"

text \<open>
  \<open>Regexp.FindStringSubmatch\<close>: the leftmost match, as the matched text followed by
  the text of the groups \<open>1\<close> to \<open>k\<close> (empty for a group that took no part); the empty
  list is \<open>nil\<close>, no match.
\<close>

definition submatches :: "nat \<Rightarrow> string \<Rightarrow> mstate \<Rightarrow> string list" where
  "submatches k s st =
     take (length s - length (fst st)) s
       # map (\<lambda>n. case map_of (snd st) n of None \<Rightarrow> [] | Some g \<Rightarrow> g) [1..<Suc k]"

fun FindStringSubmatch :: "re \<Rightarrow> nat \<Rightarrow> string \<Rightarrow> string list" where
  "FindStringSubmatch r k [] =
     (case run r ([], []) of [] \<Rightarrow> [] | st # sts \<Rightarrow> submatches k [] st)"
| "FindStringSubmatch r k (c # cs) =
     (case run r (c # cs, []) of
        [] \<Rightarrow> FindStringSubmatch r k cs
      | st # sts \<Rightarrow> submatches k (c # cs) st)"

text \<open>Shorthands: a sequence, a choice, a word under \<open>(?i)\<close>, \<open>\s\<close> and \<open>\w\<close>.\<close>

fun seq :: "re list \<Rightarrow> re" where
  "seq [] = Eps"
| "seq [r] = r"
| "seq (r # rs) = Cat r (seq rs)"

fun alts :: "re list \<Rightarrow> re" where
  "alts [] = NClass []"
| "alts [r] = r"
| "alts (r # rs) = Alt r (alts rs)"

definition lits :: "string \<Rightarrow> re" where
  "lits s = seq (map Lit s)"

definition cis :: "string \<Rightarrow> re" where
  "cis s = seq (map CI s)"

definition ws :: re where
  "ws = Class [CHR 0x09, CHR 0x0A, CHR 0x0C, CHR 0x0D, CHR 0x20]"

definition word :: re where
  "word = Class ''0123456789ABCDEFGHIJKLMNOPQRSTUVWXYZ_abcdefghijklmnopqrstuvwxyz''"

section \<open>The injection scan and the executor's dispatch\<close>

text \<open>
  The six patterns of \<open>NewSQLInjectionValidator\<close>, in the order of the source:
  keyword pairs, comment tokens, string concatenation, boolean tautologies, timing
  calls, and system schemas.
\<close>

definition dangerousPatterns :: "re list" where
  "dangerousPatterns =
     [Group 1 (alts [seq [cis ''union'', Plus ws, cis ''select''],
                     seq [cis ''drop'', Plus ws, cis ''table''],
                     seq [cis ''delete'', Plus ws, cis ''from''],
                     seq [cis ''insert'', Plus ws, cis ''into''],
                     seq [cis ''update'', Plus ws, cis ''set'']]),
      Group 1 (alts [lits ''--'', lits ''/*'', lits ''*/'', lits ''#'']),
      Group 1 (alts [seq [Lit squote, Star ws, Lit (CHR ''+''), Star ws, Lit squote],
                     seq [Lit dquote, Star ws, Lit (CHR ''+''), Star ws, Lit dquote]]),
      Group 1 (alts [seq [Plus ws, cis ''or'', Plus ws, CI (CHR ''1''), Star ws, CI (CHR ''=''),
                          Star ws, CI (CHR ''1'')],
                     seq [Plus ws, cis ''and'', Plus ws, CI (CHR ''1''), Star ws, CI (CHR ''=''),
                          Star ws, CI (CHR ''1'')]]),
      Group 1 (alts [seq [cis ''sleep'', Star ws, CI (CHR ''('')],
                     seq [cis ''waitfor'', Plus ws, cis ''delay''],
                     seq [cis ''benchmark'', Star ws, CI (CHR ''('')]]),
      Group 1 (alts [cis ''information_schema'', cis ''sys.'', cis ''mysql.'', cis ''pg_''])]"

text \<open>\<open>ValidateSQL\<close>: the error of the first pattern that matches, or \<open>nil\<close>.\<close>

definition ValidateSQL :: "string \<Rightarrow> error option" where
  "ValidateSQL sql =
     (let cleanSQL = TrimSpace sql in
      case find (\<lambda>pattern. MatchString pattern cleanSQL) dangerousPatterns of
        Some pattern \<Rightarrow> Some (Errorf ''potential SQL injection detected: %s'')
      | None \<Rightarrow> None)"

text \<open>
  \<open>Executor.Execute\<close>. The handlers talk to the remote service and print; the model
  returns the handler the command is dispatched to. \<open>cmd\<close> is \<open>None\<close> for a nil
  command, \<open>db\<close> is false for a nil connection.
\<close>

datatype handler =
    showTables | showDatabases | showColumns string | describe string
  | selectData SQLCommand | insertData SQLCommand | updateData SQLCommand
  | deleteData SQLCommand | createTable SQLCommand | dropTable SQLCommand

definition Executor_Execute :: "bool \<Rightarrow> SQLCommand option \<Rightarrow> error + handler" where
  "Executor_Execute db cmd0 =
     (case cmd0 of
        None \<Rightarrow> Inl (Errorf ''the SQL command must not be empty'')
      | Some cmd \<Rightarrow>
          if \<not> db then Inl (Errorf ''the database connection is not initialised'')
          else
            (case ValidateSQL (RawSQL cmd) of
               Some err \<Rightarrow> Inl (Wrapf ''security validation failed: %w'' err)
             | None \<Rightarrow>
                 if Type cmd = ''SHOW'' then
                   (if ToUpper (ShowType cmd) = ''TABLES'' then Inr showTables
                    else if ToUpper (ShowType cmd) = ''DATABASES'' then Inr showDatabases
                    else if ToUpper (ShowType cmd) = ''COLUMNS'' then Inr (showColumns (Table cmd))
                    else Inl (Errorf ''unsupported SHOW command: %s''))
                 else if Type cmd = ''DESCRIBE'' then Inr (describe (Table cmd))
                 else if Type cmd = ''SELECT'' then Inr (selectData cmd)
                 else if Type cmd = ''INSERT'' then Inr (insertData cmd)
                 else if Type cmd = ''UPDATE'' then Inr (updateData cmd)
                 else if Type cmd = ''DELETE'' then Inr (deleteData cmd)
                 else if Type cmd = ''CREATE'' then Inr (createTable cmd)
                 else if Type cmd = ''DROP'' then Inr (dropTable cmd)
                 else Inl (Errorf ''unsupported command type: %s'')))"

text \<open>A command as the parser builds it for a statement without WHERE.\<close>

definition plainCommand :: "string \<Rightarrow> string \<Rightarrow> string \<Rightarrow> SQLCommand" where
  "plainCommand ty table sql =
     \<lparr>Type = ty, Table = table, Where = [], RawSQL = sql, ShowType = []\<rparr>"

section \<open>WHERE clauses to filter conditions\<close>

record FilterCondition =
  FieldName :: string
  Operator :: string
  Value :: "govalue list"

record FilterRequest =
  Conjunction :: string
  Conditions :: "FilterCondition list"

subsection \<open>The ORM expression translator\<close>

text \<open>
  The expressions of the ORM's WHERE clause that \<open>buildFilter\<close> tells apart. The
  column of a comparison is an \<open>interface{}\<close>: \<open>ClauseColumn name\<close> is a
  \<open>clause.Column\<close> of that name, \<open>NoColumn\<close> a value of any other type.
\<close>

datatype column = ClauseColumn string | NoColumn

datatype expression =
    Eq column govalue
  | Neq column govalue
  | Gt column govalue
  | Gte column govalue
  | Lt column govalue
  | Lte column govalue
  | Like column govalue
  | IN column "govalue list"
  | Expr string "govalue list"
  | OtherExpression

definition buildComparison :: "string \<Rightarrow> column \<Rightarrow> govalue \<Rightarrow> FilterCondition option" where
  "buildComparison operator col v =
     (case col of
        NoColumn \<Rightarrow> None
      | ClauseColumn name \<Rightarrow>
          if name = [] then None
          else Some \<lparr>FieldName = name, Operator = operator, Value = [v]\<rparr>)"

definition buildEqualCondition :: "column \<Rightarrow> govalue \<Rightarrow> FilterCondition option" where
  "buildEqualCondition col v = buildComparison ''is'' col v"

definition buildNotEqualCondition :: "column \<Rightarrow> govalue \<Rightarrow> FilterCondition option" where
  "buildNotEqualCondition col v = buildComparison ''isNot'' col v"

definition buildGreaterThanCondition :: "column \<Rightarrow> govalue \<Rightarrow> FilterCondition option" where
  "buildGreaterThanCondition col v = buildComparison ''isGreater'' col v"

definition buildGreaterEqualCondition :: "column \<Rightarrow> govalue \<Rightarrow> FilterCondition option" where
  "buildGreaterEqualCondition col v = buildComparison ''isGreaterEqual'' col v"

definition buildLessThanCondition :: "column \<Rightarrow> govalue \<Rightarrow> FilterCondition option" where
  "buildLessThanCondition col v = buildComparison ''isLess'' col v"

definition buildLessEqualCondition :: "column \<Rightarrow> govalue \<Rightarrow> FilterCondition option" where
  "buildLessEqualCondition col v = buildComparison ''isLessEqual'' col v"

definition buildLikeCondition :: "column \<Rightarrow> govalue \<Rightarrow> FilterCondition option" where
  "buildLikeCondition col v =
     (case col of
        NoColumn \<Rightarrow> None
      | ClauseColumn name \<Rightarrow>
          if name = [] then None
          else Some \<lparr>FieldName = name, Operator = ''contains'', Value = [v]\<rparr>)"

definition buildInCondition :: "column \<Rightarrow> govalue list \<Rightarrow> FilterCondition option" where
  "buildInCondition col vs =
     (case col of
        NoColumn \<Rightarrow> None
      | ClauseColumn name \<Rightarrow>
          if name = [] then None
          else if length vs = 0 then None
          else Some \<lparr>FieldName = name, Operator = ''isAnyOf'', Value = vs\<rparr>)"

text \<open>
  \<open>strings.Contains\<close>, and \<open>strings.Split(s, sep)[0]\<close>: the text before the first
  occurrence of \<open>sep\<close>, all of \<open>s\<close> when there is none.
\<close>

fun Contains :: "string \<Rightarrow> string \<Rightarrow> bool" where
  "Contains [] sub = (sub = [])"
| "Contains (c # cs) sub = (HasPrefix (c # cs) sub \<or> Contains cs sub)"

fun beforeFirst :: "string \<Rightarrow> string \<Rightarrow> string" where
  "beforeFirst sep [] = []"
| "beforeFirst sep (c # cs) = (if HasPrefix (c # cs) sep then [] else c # beforeFirst sep cs)"

definition buildExprCondition :: "string \<Rightarrow> govalue list \<Rightarrow> FilterCondition option" where
  "buildExprCondition sql vars =
     (if Contains (ToUpper sql) '' IS NOT NULL''
      then Some \<lparr>FieldName = TrimSpace (beforeFirst '' IS NOT NULL'' (ToUpper sql)),
                 Operator = ''isNotEmpty'', Value = []\<rparr>
      else if Contains (ToUpper sql) '' IS NULL''
      then Some \<lparr>FieldName = TrimSpace (beforeFirst '' IS NULL'' (ToUpper sql)),
                 Operator = ''isEmpty'', Value = []\<rparr>
      else if length vars = 0 then None
      else
        (case (if Contains sql '' = ?''
               then Some (TrimSpace (beforeFirst '' = ?'' sql), ''is'')
               else if Contains sql '' != ?'' \<or> Contains sql '' <> ?''
               then Some (if TrimSpace (beforeFirst '' != ?'' sql) = []
                          then TrimSpace (beforeFirst '' <> ?'' sql)
                          else TrimSpace (beforeFirst '' != ?'' sql), ''isNot'')
               else if Contains sql '' > ?''
               then Some (TrimSpace (beforeFirst '' > ?'' sql), ''isGreater'')
               else if Contains sql '' >= ?''
               then Some (TrimSpace (beforeFirst '' >= ?'' sql), ''isGreaterEqual'')
               else if Contains sql '' < ?''
               then Some (TrimSpace (beforeFirst '' < ?'' sql), ''isLess'')
               else if Contains sql '' <= ?''
               then Some (TrimSpace (beforeFirst '' <= ?'' sql), ''isLessEqual'')
               else if Contains sql '' LIKE ?'' \<or> Contains sql '' like ?''
               then Some (if TrimSpace (beforeFirst '' LIKE ?'' sql) = []
                          then TrimSpace (beforeFirst '' like ?'' sql)
                          else TrimSpace (beforeFirst '' LIKE ?'' sql), ''contains'')
               else None) of
           None \<Rightarrow> None
         | Some (fieldName, operator) \<Rightarrow>
             if fieldName = [] then None
             else Some \<lparr>FieldName = fieldName, Operator = operator, Value = [hd vars]\<rparr>))"

definition buildCondition :: "expression \<Rightarrow> FilterCondition option" where
  "buildCondition e =
     (case e of
        Eq col v \<Rightarrow> buildEqualCondition col v
      | Neq col v \<Rightarrow> buildNotEqualCondition col v
      | Gt col v \<Rightarrow> buildGreaterThanCondition col v
      | Gte col v \<Rightarrow> buildGreaterEqualCondition col v
      | Lt col v \<Rightarrow> buildLessThanCondition col v
      | Lte col v \<Rightarrow> buildLessEqualCondition col v
      | Like col v \<Rightarrow> buildLikeCondition col v
      | IN col vs \<Rightarrow> buildInCondition col vs
      | Expr sql vars \<Rightarrow> buildExprCondition sql vars
      | OtherExpression \<Rightarrow> None)"

definition buildFilter :: "expression list \<Rightarrow> FilterRequest option" where
  "buildFilter exprs =
     (if length exprs = 0 then None
      else
        (let conditions = List.map_filter buildCondition exprs in
         if length conditions = 0 then None
         else Some \<lparr>Conjunction = ''and'', Conditions = conditions\<rparr>))"

subsection \<open>The raw-SQL WHERE translator\<close>

text \<open>
  The ten patterns of \<open>buildFilterFromWhere\<close> with their operators, in the order of
  the source, each with the number of its groups.
\<close>

definition quotes :: re where
  "quotes = Class [squote, dquote]"

definition unquoted :: re where
  "unquoted = NClass [squote, dquote]"

definition comparisonPattern :: "string \<Rightarrow> re" where
  "comparisonPattern op =
     seq [Group 1 (Plus word), Star ws, cis op, Star ws, Star quotes, Group 2 (Plus unquoted),
          Star quotes]"

definition operatorPatterns :: "(re \<times> nat \<times> string) list" where
  "operatorPatterns =
     [(seq [Group 1 (Plus word), Plus ws, cis ''is'', Plus ws, cis ''not'', Plus ws, cis ''null''],
       1, ''isNotEmpty''),
      (seq [Group 1 (Plus word), Plus ws, cis ''is'', Plus ws, cis ''null''], 1, ''isEmpty''),
      (comparisonPattern ''!='', 2, ''isNot''),
      (comparisonPattern ''>='', 2, ''isGreaterEqual''),
      (comparisonPattern ''<='', 2, ''isLessEqual''),
      (comparisonPattern ''>'', 2, ''isGreater''),
      (comparisonPattern ''<'', 2, ''isLess''),
      (comparisonPattern ''='', 2, ''is''),
      (seq [Group 1 (Plus word), Plus ws, cis ''like'', Plus ws, Star quotes,
            Group 2 (Plus unquoted), Star quotes], 2, ''contains''),
      (seq [Group 1 (Plus word), Plus ws, cis ''in'', Star ws, CI (CHR ''(''),
            Group 2 (Plus (NClass '')'')), CI (CHR '')'')], 2, ''isAnyOf'')]"

text \<open>\<open>strings.Trim(v, cutset)\<close> and \<open>strings.ReplaceAll(v, c, "")\<close> for one byte \<open>c\<close>.\<close>

definition Trim :: "string \<Rightarrow> string \<Rightarrow> string" where
  "Trim v cutset =
     rev (dropWhile (\<lambda>c. c \<in> set cutset) (rev (dropWhile (\<lambda>c. c \<in> set cutset) v)))"

definition removeAll_byte :: "char \<Rightarrow> string \<Rightarrow> string" where
  "removeAll_byte c v = filter (\<lambda>x. x \<noteq> c) v"

definition convertBool :: "string \<Rightarrow> govalue" where
  "convertBool v =
     (if ToLower v = ''true'' then GoBool True
      else if ToLower v = ''false'' then GoBool False
      else GoString v)"

definition inValues :: "string \<Rightarrow> govalue list" where
  "inValues v =
     map convertBool
       (filter (\<lambda>x. x \<noteq> [])
          (map (\<lambda>x. Trim (TrimSpace x) [squote, dquote]) (Split (CHR '','') v)))"

text \<open>
  The loop over the patterns: \<open>None\<close> when the pattern adds no condition and the loop
  continues, \<open>Some c\<close> when it appends \<open>c\<close> and breaks.
\<close>

definition conditionOf :: "string \<Rightarrow> string list \<Rightarrow> FilterCondition option" where
  "conditionOf operator matches =
     (if length matches \<ge> 2 then
        (let field = TrimSpace (matches ! 1) in
         if field = [] then None
         else if operator = ''isEmpty'' \<or> operator = ''isNotEmpty''
         then Some \<lparr>FieldName = field, Operator = operator, Value = []\<rparr>
         else if length matches < 3 then None
         else
           (let v = TrimSpace (matches ! 2) in
            if v = [] then None
            else
              (let values =
                     (if operator = ''isAnyOf'' then inValues v
                      else [convertBool
                              (if operator = ''contains''
                               then removeAll_byte (CHR ''_'') (removeAll_byte (CHR ''%'') v)
                               else v)])
               in if length values = 0 then None
                  else Some \<lparr>FieldName = field, Operator = operator, Value = values\<rparr>)))
      else None)"

fun firstCondition :: "(re \<times> nat \<times> string) list \<Rightarrow> string \<Rightarrow> FilterCondition option" where
  "firstCondition [] whereClause = None"
| "firstCondition ((pattern, k, operator) # rest) whereClause =
     (case conditionOf operator (FindStringSubmatch pattern k whereClause) of
        Some c \<Rightarrow> Some c
      | None \<Rightarrow> firstCondition rest whereClause)"

definition buildFilterFromWhere :: "string \<Rightarrow> FilterRequest option" where
  "buildFilterFromWhere whereClause0 =
     (if whereClause0 = [] then None
      else
        (let whereClause = TrimSpace whereClause0 in
         if whereClause = [] then None
         else
           (case firstCondition operatorPatterns whereClause of
              None \<Rightarrow> None
            | Some c \<Rightarrow> Some \<lparr>Conjunction = ''and'', Conditions = [c]\<rparr>)))"

section \<open>Circuit breaker: the state machine\<close>

lemma Execute_const_closed_fail:
  assumes "state cb = StateClosed" "err \<noteq> None"
  shows "fst (Execute cb now1 now2 (\<lambda>w::unit. (w, err)) ()) =
           (if failures cb + 1 \<ge> MaxFailures (cb_config cb)
            then cb\<lparr>state := StateOpen, failures := failures cb + 1, lastFailTime := now2\<rparr>
            else cb\<lparr>failures := failures cb + 1, lastFailTime := now2\<rparr>)"
  using assms by (simp add: Execute_def allowRequest_def recordResult_def setState_def Let_def)

lemma Execute_const_halfopen_ok:
  assumes "state cb = StateHalfOpen" "requests cb < MaxRequests (cb_config cb)"
  shows "fst (Execute cb now1 now2 (\<lambda>w::unit. (w, None)) ()) =
           (if requests cb + 1 \<ge> MaxRequests (cb_config cb)
            then cb\<lparr>state := StateClosed, failures := 0, requests := 0\<rparr>
            else cb\<lparr>requests := requests cb + 1\<rparr>)"
  using assms by (simp add: Execute_def allowRequest_def recordResult_def setState_def Let_def)

lemma executes_append: "executes cb (xs @ ys) = executes (executes cb xs) ys"
  by (induction xs arbitrary: cb) auto

lemma executes_failing_closed:
  assumes "state cb = StateClosed"
    and "\<forall>ev \<in> set evs. snd (snd ev) \<noteq> None"
    and "failures cb + int (length evs) < MaxFailures (cb_config cb)"
  shows "executes cb evs = cb\<lparr>failures := failures cb + int (length evs),
           lastFailTime := (if evs = [] then lastFailTime cb else fst (snd (last evs)))\<rparr>"
  using assms
proof (induction evs arbitrary: cb)
  case Nil
  then show ?case by simp
next
  case (Cons ev evs)
  obtain n1 n2 err where ev: "ev = (n1, n2, err)" by (cases ev) auto
  from Cons.prems ev have err: "err \<noteq> None" by simp
  let ?cb1 = "cb\<lparr>failures := failures cb + 1, lastFailTime := n2\<rparr>"
  from Cons.prems have lt: "failures cb + 1 < MaxFailures (cb_config cb)" by simp
  have step: "fst (Execute cb n1 n2 (\<lambda>w::unit. (w, err)) ()) = ?cb1"
    using Execute_const_closed_fail[OF Cons.prems(1) err, of n1 n2] lt by simp
  have "executes ?cb1 evs = ?cb1\<lparr>failures := failures ?cb1 + int (length evs),
           lastFailTime := (if evs = [] then lastFailTime ?cb1 else fst (snd (last evs)))\<rparr>"
    using Cons.prems by (intro Cons.IH) auto
  then show ?case using step ev by simp
qed

lemma executes_failing_opens:
  assumes "state cb = StateClosed"
    and "\<forall>ev \<in> set evs. snd (snd ev) \<noteq> None"
    and "evs \<noteq> []"
    and "failures cb + int (length evs) = MaxFailures (cb_config cb)"
  shows "executes cb evs = cb\<lparr>state := StateOpen, failures := MaxFailures (cb_config cb),
           lastFailTime := fst (snd (last evs))\<rparr>"
proof -
  from assms(3) obtain pre ev where evs: "evs = pre @ [ev]"
    by (metis rev_exhaust)
  obtain n1 n2 err where ev: "ev = (n1, n2, err)" by (cases ev) auto
  from assms(2) evs ev have err: "err \<noteq> None" by simp
  let ?mid = "cb\<lparr>failures := failures cb + int (length pre),
           lastFailTime := (if pre = [] then lastFailTime cb else fst (snd (last pre)))\<rparr>"
  have mid: "executes cb pre = ?mid"
    using assms evs by (intro executes_failing_closed) auto
  have st: "state ?mid = StateClosed" using assms(1) by simp
  have "fst (Execute ?mid n1 n2 (\<lambda>w::unit. (w, err)) ()) =
          ?mid\<lparr>state := StateOpen, failures := failures ?mid + 1, lastFailTime := n2\<rparr>"
    using Execute_const_closed_fail[OF st err, of n1 n2] assms(4) evs by simp
  then show ?thesis
    using mid evs ev assms(4) by (simp add: executes_append)
qed

lemma executes_probes_halfopen:
  assumes "state cb = StateHalfOpen"
    and "\<forall>ev \<in> set ps. snd (snd ev) = None"
    and "requests cb + int (length ps) < MaxRequests (cb_config cb)"
    and "0 \<le> requests cb"
  shows "executes cb ps = cb\<lparr>requests := requests cb + int (length ps)\<rparr>"
  using assms
proof (induction ps arbitrary: cb)
  case Nil
  then show ?case by simp
next
  case (Cons p ps)
  obtain n1 n2 err where p: "p = (n1, n2, err)" by (cases p) auto
  from Cons.prems p have err: "err = None" by simp
  let ?cb1 = "cb\<lparr>requests := requests cb + 1\<rparr>"
  from Cons.prems have lt: "requests cb + 1 < MaxRequests (cb_config cb)" by simp
  then have lt0: "requests cb < MaxRequests (cb_config cb)" by simp
  have step: "fst (Execute cb n1 n2 (\<lambda>w::unit. (w, None)) ()) = ?cb1"
    using Execute_const_halfopen_ok[OF Cons.prems(1) lt0, of n1 n2] lt by simp
  have "executes ?cb1 ps = ?cb1\<lparr>requests := requests ?cb1 + int (length ps)\<rparr>"
    using Cons.prems by (intro Cons.IH) auto
  then show ?case using step p err by simp
qed

lemma executes_probes_close:
  assumes "state cb = StateHalfOpen"
    and "\<forall>ev \<in> set ps. snd (snd ev) = None"
    and "ps \<noteq> []"
    and "requests cb + int (length ps) = MaxRequests (cb_config cb)"
    and "0 \<le> requests cb"
  shows "executes cb ps = cb\<lparr>state := StateClosed, failures := 0, requests := 0\<rparr>"
proof -
  from assms(3) obtain pre p where ps: "ps = pre @ [p]"
    by (metis rev_exhaust)
  obtain n1 n2 err where p: "p = (n1, n2, err)" by (cases p) auto
  from assms(2) ps p have err: "err = None" by simp
  let ?mid = "cb\<lparr>requests := requests cb + int (length pre)\<rparr>"
  have mid: "executes cb pre = ?mid"
    using assms ps by (intro executes_probes_halfopen) auto
  have st: "state ?mid = StateHalfOpen" using assms(1) by simp
  have lt: "requests ?mid < MaxRequests (cb_config ?mid)" using assms(4) ps by simp
  have "fst (Execute ?mid n1 n2 (\<lambda>w::unit. (w, None)) ()) =
          ?mid\<lparr>state := StateClosed, failures := 0, requests := 0\<rparr>"
    using Execute_const_halfopen_ok[OF st lt, of n1 n2] assms(4) ps by simp
  then show ?thesis
    using mid ps p err by (simp add: executes_append)
qed


lemma Execute_const_open_probe:
  assumes "state cb = StateOpen" "time_Sub now1 (lastFailTime cb) > Timeout (cb_config cb)"
  shows "fst (Execute cb now1 now2 (\<lambda>w::unit. (w, None)) ()) =
           (if 1 \<ge> MaxRequests (cb_config cb)
            then cb\<lparr>state := StateClosed, failures := 0, requests := 0\<rparr>
            else cb\<lparr>state := StateHalfOpen, requests := 1\<rparr>)"
  using assms by (simp add: Execute_def allowRequest_def recordResult_def setState_def Let_def)

lemma executes_after_timeout:
  assumes "state cb = StateOpen" "ps \<noteq> []"
    and "time_Sub (fst (hd ps)) (lastFailTime cb) > Timeout (cb_config cb)"
    and "\<forall>ev \<in> set ps. snd (snd ev) = None"
    and "1 \<le> MaxRequests (cb_config cb)"
  shows "int (length ps) < MaxRequests (cb_config cb)
           \<Longrightarrow> executes cb ps = cb\<lparr>state := StateHalfOpen, requests := int (length ps)\<rparr>"
    and "int (length ps) = MaxRequests (cb_config cb)
           \<Longrightarrow> executes cb ps = cb\<lparr>state := StateClosed, failures := 0, requests := 0\<rparr>"
proof -
  from assms(2) obtain p rest where ps: "ps = p # rest" by (cases ps) auto
  obtain n1 n2 err where p: "p = (n1, n2, err)" by (cases p) auto
  from assms(4) ps p have err: "err = None" by simp
  from assms(3) ps p have t: "time_Sub n1 (lastFailTime cb) > Timeout (cb_config cb)" by simp
  note first = Execute_const_open_probe[OF assms(1) t, of n2]
  let ?half = "cb\<lparr>state := StateHalfOpen, requests := 1\<rparr>"
  show "executes cb ps = cb\<lparr>state := StateHalfOpen, requests := int (length ps)\<rparr>"
    if lt: "int (length ps) < MaxRequests (cb_config cb)"
  proof -
    from lt ps have m: "\<not> 1 \<ge> MaxRequests (cb_config cb)" by simp
    have "executes ?half rest = ?half\<lparr>requests := requests ?half + int (length rest)\<rparr>"
      using assms(4) ps lt by (intro executes_probes_halfopen) auto
    then show ?thesis using first m ps p err by simp
  qed
  show "executes cb ps = cb\<lparr>state := StateClosed, failures := 0, requests := 0\<rparr>"
    if eq: "int (length ps) = MaxRequests (cb_config cb)"
  proof (cases rest)
    case Nil
    then have "1 \<ge> MaxRequests (cb_config cb)" using eq ps by simp
    then show ?thesis using first ps p err Nil by simp
  next
    case (Cons q qs)
    then have m: "\<not> 1 \<ge> MaxRequests (cb_config cb)" using eq ps by simp
    have "executes ?half rest = ?half\<lparr>state := StateClosed, failures := 0, requests := 0\<rparr>"
      using assms(4) ps eq Cons by (intro executes_probes_close) auto
    then show ?thesis using first m ps p err by simp
  qed
qed

lemma cb_inv_apply:
  assumes "1 \<le> MaxFailures cfg" "cb_inv cfg cb"
  shows "cb_inv cfg (cb_apply cb s)"
  using assms
  by (cases s; cases "state cb")
     (auto simp: cb_inv_def allowRequest_def recordResult_def Reset_def setState_def Let_def)

lemma cb_inv_foldl:
  assumes "1 \<le> MaxFailures cfg" "cb_inv cfg cb"
  shows "cb_inv cfg (foldl cb_apply cb steps)"
  using assms(2)
  by (induction steps arbitrary: cb) (simp_all add: cb_inv_apply[OF assms(1)])


text \<open>
  Claim C3. With \<open>max_failures = k \<ge> 1\<close> and \<open>max_probe = m \<ge> 1\<close>: a new breaker
  is CLOSED with failure counter 0; fewer than \<open>k\<close> consecutive failed executions leave
  it CLOSED with the counter equal to their number, and the \<open>k\<close>-th moves it to OPEN
  with the time of that failure recorded; a success in CLOSED resets the counter to 0;
  along every interleaving of the breaker's atomic steps the counter is below \<open>k\<close>
  whenever the state is CLOSED; in OPEN a request is admitted, as a probe in HALF_OPEN
  with the probe counter at 0, exactly when the open timeout has elapsed; \<open>m\<close>
  consecutive successful probes close the breaker and reset the failure counter (fewer
  leave it HALF_OPEN), counted from HALF_OPEN with no probe recorded as well as from
  OPEN with the first of them issued after the timeout; and a failure in HALF_OPEN
  returns to OPEN and records its time.
\<close>

theorem circuit_breaker_state_machine:
  assumes k: "1 \<le> MaxFailures cfg" and m: "1 \<le> MaxRequests cfg"
  shows
    "state (NewCircuitBreaker (Some cfg)) = StateClosed
     \<and> failures (NewCircuitBreaker (Some cfg)) = 0
     \<and> (\<forall>fs. (\<forall>ev \<in> set fs. snd (snd ev) \<noteq> None) \<and> int (length fs) < MaxFailures cfg
            \<longrightarrow> state (executes (NewCircuitBreaker (Some cfg)) fs) = StateClosed
              \<and> failures (executes (NewCircuitBreaker (Some cfg)) fs) = int (length fs))
     \<and> (\<forall>fs. (\<forall>ev \<in> set fs. snd (snd ev) \<noteq> None) \<and> int (length fs) = MaxFailures cfg
            \<longrightarrow> state (executes (NewCircuitBreaker (Some cfg)) fs) = StateOpen
              \<and> lastFailTime (executes (NewCircuitBreaker (Some cfg)) fs) = fst (snd (last fs)))
     \<and> (\<forall>cb now. state cb = StateClosed
            \<longrightarrow> recordResult cb now None = cb\<lparr>failures := 0\<rparr>)
     \<and> (\<forall>steps. state (foldl cb_apply (NewCircuitBreaker (Some cfg)) steps) = StateClosed
            \<longrightarrow> 0 \<le> failures (foldl cb_apply (NewCircuitBreaker (Some cfg)) steps)
              \<and> failures (foldl cb_apply (NewCircuitBreaker (Some cfg)) steps) < MaxFailures cfg)
     \<and> (\<forall>cb now. cb_config cb = cfg \<and> state cb = StateOpen
            \<longrightarrow> allowRequest cb now =
                  (if time_Sub now (lastFailTime cb) > Timeout cfg
                   then (cb\<lparr>state := StateHalfOpen, requests := 0\<rparr>, True)
                   else (cb, False)))
     \<and> (\<forall>cb ps. cb_config cb = cfg \<and> state cb = StateHalfOpen \<and> requests cb = 0
              \<and> (\<forall>ev \<in> set ps. snd (snd ev) = None)
            \<longrightarrow> (int (length ps) < MaxRequests cfg \<longrightarrow> state (executes cb ps) = StateHalfOpen)
              \<and> (int (length ps) = MaxRequests cfg
                   \<longrightarrow> state (executes cb ps) = StateClosed \<and> failures (executes cb ps) = 0))
     \<and> (\<forall>cb ps. cb_config cb = cfg \<and> state cb = StateOpen \<and> ps \<noteq> []
              \<and> time_Sub (fst (hd ps)) (lastFailTime cb) > Timeout cfg
              \<and> (\<forall>ev \<in> set ps. snd (snd ev) = None)
            \<longrightarrow> (int (length ps) < MaxRequests cfg \<longrightarrow> state (executes cb ps) = StateHalfOpen)
              \<and> (int (length ps) = MaxRequests cfg
                   \<longrightarrow> state (executes cb ps) = StateClosed \<and> failures (executes cb ps) = 0))
     \<and> (\<forall>cb now e. state cb = StateHalfOpen
            \<longrightarrow> state (recordResult cb now (Some e)) = StateOpen
              \<and> lastFailTime (recordResult cb now (Some e)) = now)"
proof -
  let ?cb0 = "NewCircuitBreaker (Some cfg)"
  have init: "state ?cb0 = StateClosed" "failures ?cb0 = 0" "cb_config ?cb0 = cfg"
    by (simp_all add: NewCircuitBreaker_def)
  have below: "state (executes ?cb0 fs) = StateClosed
      \<and> failures (executes ?cb0 fs) = int (length fs)"
    if "\<forall>ev \<in> set fs. snd (snd ev) \<noteq> None" "int (length fs) < MaxFailures cfg" for fs
  proof -
    have "executes ?cb0 fs = ?cb0\<lparr>failures := failures ?cb0 + int (length fs),
           lastFailTime := (if fs = [] then lastFailTime ?cb0 else fst (snd (last fs)))\<rparr>"
      using that init by (intro executes_failing_closed) auto
    then show ?thesis using init by simp
  qed
  have reach: "state (executes ?cb0 fs) = StateOpen
      \<and> lastFailTime (executes ?cb0 fs) = fst (snd (last fs))"
    if "\<forall>ev \<in> set fs. snd (snd ev) \<noteq> None" "int (length fs) = MaxFailures cfg" for fs
  proof -
    from that(2) k have ne: "fs \<noteq> []" by auto
    have "executes ?cb0 fs = ?cb0\<lparr>state := StateOpen, failures := MaxFailures (cb_config ?cb0),
           lastFailTime := fst (snd (last fs))\<rparr>"
      using that init ne by (intro executes_failing_opens) auto
    then show ?thesis by simp
  qed
  have reset: "recordResult cb now None = cb\<lparr>failures := 0\<rparr>"
    if "state cb = StateClosed" for cb now
    using that by (simp add: recordResult_def)
  have inv0: "cb_inv cfg ?cb0"
    using k init by (simp add: cb_inv_def)
  have inv: "0 \<le> failures (foldl cb_apply ?cb0 steps)
      \<and> failures (foldl cb_apply ?cb0 steps) < MaxFailures cfg"
    if "state (foldl cb_apply ?cb0 steps) = StateClosed" for steps
    using cb_inv_foldl[OF k inv0, of steps] that by (simp add: cb_inv_def)
  have probe: "allowRequest cb now =
                  (if time_Sub now (lastFailTime cb) > Timeout cfg
                   then (cb\<lparr>state := StateHalfOpen, requests := 0\<rparr>, True)
                   else (cb, False))"
    if "cb_config cb = cfg" "state cb = StateOpen" for cb now
    using that by (simp add: allowRequest_def setState_def)
  have half1: "state (executes cb ps) = StateHalfOpen"
    if "cb_config cb = cfg" "state cb = StateHalfOpen" "requests cb = 0"
       "\<forall>ev \<in> set ps. snd (snd ev) = None" "int (length ps) < MaxRequests cfg" for cb ps
  proof -
    have "executes cb ps = cb\<lparr>requests := requests cb + int (length ps)\<rparr>"
      using that by (intro executes_probes_halfopen) auto
    then show ?thesis using that by simp
  qed
  have half2: "state (executes cb ps) = StateClosed \<and> failures (executes cb ps) = 0"
    if "cb_config cb = cfg" "state cb = StateHalfOpen" "requests cb = 0"
       "\<forall>ev \<in> set ps. snd (snd ev) = None" "int (length ps) = MaxRequests cfg" for cb ps
  proof -
    from that(5) m have ne: "ps \<noteq> []" by auto
    have "executes cb ps = cb\<lparr>state := StateClosed, failures := 0, requests := 0\<rparr>"
      using that ne by (intro executes_probes_close) auto
    then show ?thesis by simp
  qed
  have after1: "state (executes cb ps) = StateHalfOpen"
    if "cb_config cb = cfg" "state cb = StateOpen" "ps \<noteq> []"
       "time_Sub (fst (hd ps)) (lastFailTime cb) > Timeout cfg"
       "\<forall>ev \<in> set ps. snd (snd ev) = None" "int (length ps) < MaxRequests cfg" for cb ps
  proof -
    have "executes cb ps = cb\<lparr>state := StateHalfOpen, requests := int (length ps)\<rparr>"
      using that m by (intro executes_after_timeout(1)) auto
    then show ?thesis by simp
  qed
  have after2: "state (executes cb ps) = StateClosed \<and> failures (executes cb ps) = 0"
    if "cb_config cb = cfg" "state cb = StateOpen" "ps \<noteq> []"
       "time_Sub (fst (hd ps)) (lastFailTime cb) > Timeout cfg"
       "\<forall>ev \<in> set ps. snd (snd ev) = None" "int (length ps) = MaxRequests cfg" for cb ps
  proof -
    have "executes cb ps = cb\<lparr>state := StateClosed, failures := 0, requests := 0\<rparr>"
      using that m by (intro executes_after_timeout(2)) auto
    then show ?thesis by simp
  qed
  have reopen: "state (recordResult cb now (Some e)) = StateOpen
      \<and> lastFailTime (recordResult cb now (Some e)) = now"
    if "state cb = StateHalfOpen" for cb now e
    using that by (simp add: recordResult_def setState_def Let_def)
  show ?thesis
    using init(1,2) below reach reset inv probe half1 half2 after1 after2 reopen by blast
qed


text \<open>
  The theorem at \<open>k = 3\<close>, \<open>m = 2\<close> and a timeout of 60 seconds: three network
  failures open the breaker and the time of the third is the recorded failure time; two
  successful requests, the first of them 70 seconds later, close it again.
\<close>

theorem circuit_breaker_state_machine_witness:
  "(1::int) \<le> 3 \<and> (1::int) \<le> 2
   \<and> state (executes (NewCircuitBreaker
        (Some \<lparr>MaxFailures = 3, Timeout = 60 * Second, MaxRequests = 2, Interval = 0\<rparr>))
        [(10, 11, Some (Errorf ''network'')), (20, 21, Some (Errorf ''network'')),
         (30, 31, Some (Errorf ''network''))]) = StateOpen
   \<and> lastFailTime (executes (NewCircuitBreaker
        (Some \<lparr>MaxFailures = 3, Timeout = 60 * Second, MaxRequests = 2, Interval = 0\<rparr>))
        [(10, 11, Some (Errorf ''network'')), (20, 21, Some (Errorf ''network'')),
         (30, 31, Some (Errorf ''network''))]) = 31
   \<and> state (executes (executes (NewCircuitBreaker
        (Some \<lparr>MaxFailures = 3, Timeout = 60 * Second, MaxRequests = 2, Interval = 0\<rparr>))
        [(10, 11, Some (Errorf ''network'')), (20, 21, Some (Errorf ''network'')),
         (30, 31, Some (Errorf ''network''))])
        [(70000000000, 70000000001, None), (70000000002, 70000000003, None)]) = StateClosed"
proof -
  let ?cfg = "\<lparr>MaxFailures = 3, Timeout = 60 * Second, MaxRequests = 2, Interval = 0\<rparr>"
  let ?fs = "[(10::int, 11::int, Some (Errorf ''network'')), (20, 21, Some (Errorf ''network'')),
         (30, 31, Some (Errorf ''network''))]"
  let ?ps = "[(70000000000::int, 70000000001::int, None::error option),
              (70000000002, 70000000003, None)]"
  let ?cb = "executes (NewCircuitBreaker (Some ?cfg)) ?fs"
  have k: "1 \<le> MaxFailures ?cfg" and m: "1 \<le> MaxRequests ?cfg" by simp_all
  note inst = circuit_breaker_state_machine[OF k m]
  have pre: "(\<forall>ev \<in> set ?fs. snd (snd ev) \<noteq> None) \<and> int (length ?fs) = MaxFailures ?cfg"
    by simp
  from inst pre
  have opened: "state ?cb = StateOpen \<and> lastFailTime ?cb = fst (snd (last ?fs))"
    by blast
  have cfg: "cb_config ?cb = ?cfg"
    by (simp add: NewCircuitBreaker_def Execute_def allowRequest_def recordResult_def
        setState_def Let_def)
  have probes: "?ps \<noteq> [] \<and> time_Sub (fst (hd ?ps)) (lastFailTime ?cb) > Timeout ?cfg
      \<and> (\<forall>ev \<in> set ?ps. snd (snd ev) = None) \<and> int (length ?ps) = MaxRequests ?cfg"
    using opened by (simp add: time_Sub_def maxDuration_def minDuration_def Second_def)
  from inst cfg opened probes
  have "state (executes ?cb ?ps) = StateClosed"
    by blast
  then show ?thesis using opened by simp
qed

section \<open>Token bucket: bounds of the counter\<close>



















section \<open>Token bucket: the delay of a wait\<close>

lemma calculateWaitTime_whole_seconds:
  assumes "0 < Rate (tb_config tb)" and "tokens tb < real_of_int n"
    and "\<lfloor>(real_of_int n - tokens tb) / Rate (tb_config tb)\<rfloor> * Second < 2 ^ 63"
  shows "calculateWaitTime oor tb n = \<lfloor>(real_of_int n - tokens tb) / Rate (tb_config tb)\<rfloor> * Second"
proof -
  let ?q = "(real_of_int n - tokens tb) / Rate (tb_config tb)"
  have q: "0 \<le> ?q" using assms by simp
  then have f0: "0 \<le> \<lfloor>?q\<rfloor>" by simp
  have "\<lfloor>?q\<rfloor> \<le> \<lfloor>?q\<rfloor> * Second" using f0 by (simp add: Second_def)
  then have r: "\<lfloor>?q\<rfloor> < 2 ^ 63" using assms(3) by linarith
  have t: "trunc ?q = \<lfloor>?q\<rfloor>" using q by (simp add: trunc_def)
  have c: "float64_to_int64 oor ?q = \<lfloor>?q\<rfloor>"
    using t r f0 by (simp add: float64_to_int64_def)
  have w: "wrap64 (\<lfloor>?q\<rfloor> * Second) = \<lfloor>?q\<rfloor> * Second"
  proof -
    have "0 \<le> \<lfloor>?q\<rfloor> * Second" using f0 by (simp add: Second_def)
    then show ?thesis using assms(3) by (simp add: wrap64_def)
  qed
  show ?thesis using assms(1,2) c w by (simp add: calculateWaitTime_def Let_def)
qed

text \<open>
  Claim C5 says that a wait which finds the bucket short of tokens sleeps for
  \<open>(n - tokens) / rate\<close>: half a second for five missing tokens at rate 10. The code
  converts the quotient to a \<open>Duration\<close> before it multiplies by \<open>time.Second\<close>,
  so the delay is the whole number of seconds below the quotient
  (\<open>calculateWaitTime_whole_seconds\<close>). On the bucket below (rate 10, no token left)
  the delay for five tokens is 0, and \<open>WaitN\<close> returns \<open>nil\<close> at once: no timer,
  no token taken.
\<close>

theorem wait_delay_is_zero_below_one_second:
  "calculateWaitTime oor
     \<lparr>tb_config = DefaultRateLimiterConfig, tokens = 0, lastRefill = 0,
      stats = \<lparr>TotalRequests = 0, AllowedRequests = 0, RejectedRequests = 0,
               LastRequestTime = 0\<rparr>\<rparr> 5 = 0
   \<and> WaitN oor
     \<lparr>tb_config = DefaultRateLimiterConfig, tokens = 0, lastRefill = 0,
      stats = \<lparr>TotalRequests = 0, AllowedRequests = 0, RejectedRequests = 0,
               LastRequestTime = 0\<rparr>\<rparr> 5 0 ev
     = (\<lparr>tb_config = DefaultRateLimiterConfig, tokens = 0, lastRefill = 0,
         stats = \<lparr>TotalRequests = 1, AllowedRequests = 0, RejectedRequests = 1,
                  LastRequestTime = 0\<rparr>\<rparr>, None, None)"
  by (simp add: calculateWaitTime_def WaitN_def AllowN_def Let_def DefaultRateLimiterConfig_def
      updateStats_def updateRejectedStats_def refill_def time_Sub_def maxDuration_def
      minDuration_def float64_to_int64_def trunc_def wrap64_def Second_def)

section \<open>The client: rate limiting, the breaker and the retry loop\<close>



lemma IsRetryableError_other:
  "IsRetryableError (Some (Errorf s))" "IsRetryableError (Some (Wrapf s e))"
  "IsRetryableError (Some ContextErr)" "\<not> IsRetryableError None"
  by (simp_all add: IsRetryableError_def)


lemma doSingleRequest_rejected:
  assumes "\<not> snd (Allow (rateLimiter c) tA)"
  shows "doSingleRequest unmarshal send c w (tA, t1, t2) =
           (c\<lparr>rateLimiter := fst (Allow (rateLimiter c) tA)\<rparr>, w, Inl rateLimitError)"
  using assms by (cases "Allow (rateLimiter c) tA") (auto simp: doSingleRequest_def)

text \<open>
  Claim C9. When the token bucket rejects the request, \<open>doSingleRequest\<close> returns at
  once the error of code 429 and type \<open>rate_limit\<close>; only the rate limiter has
  changed: the network is untouched and the breaker is the one of before, with the same
  state, failure counter and probe counter.
\<close>

theorem rate_limit_rejection_skips_breaker:
  assumes "\<not> snd (Allow (rateLimiter c) tA)"
  shows "doSingleRequest unmarshal send c w (tA, t1, t2) =
           (c\<lparr>rateLimiter := fst (Allow (rateLimiter c) tA)\<rparr>, w,
            Inl (APIError 429 ''rate_limit'' ''request rate too high, retry later'' ''''))
         \<and> circuitBreaker (fst (doSingleRequest unmarshal send c w (tA, t1, t2))) = circuitBreaker c
         \<and> state (circuitBreaker (fst (doSingleRequest unmarshal send c w (tA, t1, t2))))
             = state (circuitBreaker c)
         \<and> failures (circuitBreaker (fst (doSingleRequest unmarshal send c w (tA, t1, t2))))
             = failures (circuitBreaker c)
         \<and> requests (circuitBreaker (fst (doSingleRequest unmarshal send c w (tA, t1, t2))))
             = requests (circuitBreaker c)"
  using doSingleRequest_rejected[OF assms, of unmarshal send w t1 t2]
  by (simp add: rateLimitError_def NewAPIError_def)

text \<open>
  The theorem on a client whose bucket is empty: the bucket rejects, the network has
  seen no request and the breaker is still the new one.
\<close>

theorem rate_limit_rejection_skips_breaker_witness:
  "\<not> snd (Allow (rateLimiter drainedClient) 0)
   \<and> snd (snd (doSingleRequest noEnvelope failingSend drainedClient 0 (0, 5, 7)))
       = Inl (APIError 429 ''rate_limit'' ''request rate too high, retry later'' '''')
   \<and> fst (snd (doSingleRequest noEnvelope failingSend drainedClient 0 (0, 5, 7))) = 0
   \<and> circuitBreaker (fst (doSingleRequest noEnvelope failingSend drainedClient 0 (0, 5, 7)))
       = NewCircuitBreaker None"
proof -
  have rej: "\<not> snd (Allow (rateLimiter drainedClient) 0)"
    by (simp add: drainedClient_def NewTokenBucket_def Allow_def Let_def updateStats_def
        updateRejectedStats_def refill_def time_Sub_def maxDuration_def minDuration_def)
  from rate_limit_rejection_skips_breaker[OF rej, of noEnvelope failingSend 0 5 7] rej
  show ?thesis by (simp add: drainedClient_def)
qed









section \<open>Raw DELETE: requests issued and rows reported\<close>






section \<open>Literal values and numeric fields\<close>

lemmas strconv_defs =
  TrimSpace_def isSpace_def ToUpper_def asciiUpper_def ParseFloat_def parseSpecial_def
  ToLower_def asciiLower_def parseDecimal_def isDigit_def parseExponent_def digitsVal_def
  digitVal_def pow10_def ParseBool_def Atoi_def Let_def

lemma parseValue_42: "parseValue ''42'' = GoFloat64 (Float 42)"
  by (simp add: parseValue_def strconv_defs)

lemma parseValue_42_5: "parseValue ''42.5'' = GoFloat64 (Float (85 / 2))"
  by (simp add: parseValue_def strconv_defs)

lemma parseValue_true: "parseValue ''true'' = GoBool True"
  by (simp add: parseValue_def strconv_defs)

lemma parseValue_NULL: "parseValue ''NULL'' = GoNil"
  by (simp add: parseValue_def strconv_defs)

text \<open>
  Claim C8 says that the parser classifies an unquoted \<open>42\<close> as an integer and a
  quoted \<open>'42'\<close> as the string \<open>42\<close>. \<open>parseValue\<close> has no integer step, and the
  value list and the SET clause strip the quotes before they classify: in a value list
  and in a SET clause both \<open>42\<close> and \<open>'42'\<close> become the \<open>float64\<close> 42. The
  exported \<open>ParseValue\<close> of the same parser yields the integer and the string.
\<close>

theorem quoted_and_integer_literals_become_floats:
  "parseValueList ''42, '42', 42.5, true, NULL''
     = [GoFloat64 (Float 42), GoFloat64 (Float 42), GoFloat64 (Float (85 / 2)), GoBool True,
        GoNil]
   \<and> parseSetClause ''age = '42' '' = Inr [(''age'', GoFloat64 (Float 42))]
   \<and> ParseValue ''42'' = Inr (GoInteger KInt 42)
   \<and> ParseValue (squote # ''42'' @ [squote]) = Inr (GoString ''42'')"
proof -
  have trims: "TrimSpace ''42'' = ''42''" "TrimSpace '' 42'' = ''42''"
    "TrimSpace '' 42.5'' = ''42.5''" "TrimSpace '' true'' = ''true''"
    "TrimSpace '' NULL'' = ''NULL''"
    by (simp_all add: TrimSpace_def isSpace_def)
  have a: "parseValueList ''42, '42', 42.5, true, NULL''
     = [GoFloat64 (Float 42), GoFloat64 (Float 42), GoFloat64 (Float (85 / 2)), GoBool True,
        GoNil]"
    by (simp add: parseValueList_def squote_def dquote_def trims parseValue_42 parseValue_42_5
        parseValue_true parseValue_NULL)
  have b: "parseSetClause ''age = '42' '' = Inr [(''age'', GoFloat64 (Float 42))]"
    by (simp add: parseSetClause_def SplitN2_def TrimSpace_def isSpace_def isQuoted_def
        unquote_def HasPrefix_def HasSuffix_def squote_def dquote_def parseValue_42)
  have c: "ParseValue ''42'' = Inr (GoInteger KInt 42)"
    by (simp add: ParseValue_def isQuoted_def HasPrefix_def HasSuffix_def squote_def dquote_def
        Atoi_def isDigit_def digitsVal_def digitVal_def)
  have d: "ParseValue (squote # ''42'' @ [squote]) = Inr (GoString ''42'')"
    by (simp add: ParseValue_def isQuoted_def HasPrefix_def HasSuffix_def squote_def dquote_def
        unquote_def)
  show ?thesis using a b c d by simp
qed



section \<open>The injection scan on plain statements\<close>

lemmas re_defs = cis_def lits_def ws_def word_def oneByte_def folded_def capture_def
  asciiLower_def squote_def dquote_def

lemma v_insert: "ValidateSQL ''INSERT INTO users (name) VALUES ('a')''
    = Some (Errorf ''potential SQL injection detected: %s'')"
  by (simp add: ValidateSQL_def dangerousPatterns_def TrimSpace_def isSpace_def re_defs)

lemma v_delete: "ValidateSQL ''DELETE FROM users''
    = Some (Errorf ''potential SQL injection detected: %s'')"
  by (simp add: ValidateSQL_def dangerousPatterns_def TrimSpace_def isSpace_def re_defs)

lemma v_drop: "ValidateSQL ''DROP TABLE users''
    = Some (Errorf ''potential SQL injection detected: %s'')"
  by (simp add: ValidateSQL_def dangerousPatterns_def TrimSpace_def isSpace_def re_defs)

lemma v_update: "ValidateSQL ''UPDATE users SET age=1'' = None"
  by (simp add: ValidateSQL_def dangerousPatterns_def TrimSpace_def isSpace_def re_defs)

lemma v_select: "ValidateSQL ''SELECT * FROM users WHERE age > 18'' = None"
  by (simp add: ValidateSQL_def dangerousPatterns_def TrimSpace_def isSpace_def re_defs)

lemma TrimSpace_keeps_prefix:
  assumes "p \<noteq> []" "\<not> isSpace (hd p)" "\<not> isSpace (last p)"
  shows "\<exists>t. TrimSpace (p @ rest) = p @ t"
proof -
  from assms obtain c cs where p: "p = c # cs" and c: "\<not> isSpace c" by (cases p) auto
  have front: "dropWhile isSpace (p @ rest) = p @ rest" using p c by simp
  have "\<exists>zs. dropWhile isSpace (rev rest @ rev p) = zs @ rev p"
  proof (cases "\<forall>x \<in> set (rev rest). isSpace x")
    case True
    obtain xs x where px: "p = xs @ [x]" using assms(1) by (cases p rule: rev_cases) auto
    then have "\<not> isSpace x" using assms(3) by simp
    then have "dropWhile isSpace (rev p) = rev p" using px by simp
    then show ?thesis using True by (simp add: dropWhile_append)
  next
    case False
    then show ?thesis by (auto simp: dropWhile_append)
  qed
  then obtain zs where "dropWhile isSpace (rev rest @ rev p) = zs @ rev p" by blast
  then have "TrimSpace (p @ rest) = p @ rev zs"
    using front by (simp add: TrimSpace_def)
  then show ?thesis by blast
qed

lemma every_insert_into_is_rejected:
  "ValidateSQL (''INSERT INTO'' @ rest) \<noteq> None"
proof -
  obtain t where t: "TrimSpace (''INSERT INTO'' @ rest) = ''INSERT INTO'' @ t"
    using TrimSpace_keeps_prefix[of "''INSERT INTO''" rest] by (auto simp: isSpace_def)
  have "MatchString (hd dangerousPatterns) (''INSERT INTO'' @ t)"
    by (simp add: dangerousPatterns_def re_defs)
  then show ?thesis
    using t by (simp add: ValidateSQL_def dangerousPatterns_def split: option.splits)
qed

text \<open>
  Claim C1 says that a plain statement with none of the listed injection patterns passes
  the scan and is dispatched. The first pattern of the validator also lists the keyword
  pairs \<open>drop table\<close>, \<open>delete from\<close>, \<open>insert into\<close> and \<open>update set\<close>: the
  executor answers the plain INSERT, DELETE and DROP statements of the claim with the
  security error and dispatches none of them, although it has a handler for each
  (\<open>every_insert_into_is_rejected\<close>: no statement that begins with \<open>INSERT INTO\<close>
  passes). The UPDATE statement passes and is dispatched.
\<close>

theorem plain_statements_rejected_by_scan:
  "Executor_Execute True
      (Some (plainCommand ''INSERT'' ''users'' ''INSERT INTO users (name) VALUES ('a')''))
     = Inl (Wrapf ''security validation failed: %w''
              (Errorf ''potential SQL injection detected: %s''))
   \<and> Executor_Execute True (Some (plainCommand ''DELETE'' ''users'' ''DELETE FROM users''))
     = Inl (Wrapf ''security validation failed: %w''
              (Errorf ''potential SQL injection detected: %s''))
   \<and> Executor_Execute True (Some (plainCommand ''DROP'' ''users'' ''DROP TABLE users''))
     = Inl (Wrapf ''security validation failed: %w''
              (Errorf ''potential SQL injection detected: %s''))
   \<and> Executor_Execute True (Some (plainCommand ''UPDATE'' ''users'' ''UPDATE users SET age=1''))
     = Inr (updateData (plainCommand ''UPDATE'' ''users'' ''UPDATE users SET age=1''))"
  by (simp add: Executor_Execute_def plainCommand_def v_insert v_delete v_drop v_update)

section \<open>LIKE predicates on the two translation paths\<close>

lemma buildLikeCondition_keeps_value:
  "name \<noteq> [] \<Longrightarrow> buildLikeCondition (ClauseColumn name) v
     = Some \<lparr>FieldName = name, Operator = ''contains'', Value = [v]\<rparr>"
  by (simp add: buildLikeCondition_def)

lemma raw_like_strips:
  "buildFilterFromWhere ''name LIKE '%zh%' ''
     = Some \<lparr>Conjunction = ''and'',
             Conditions = [\<lparr>FieldName = ''name'', Operator = ''contains'',
                            Value = [GoString ''zh'']\<rparr>]\<rparr>"
  by (simp add: buildFilterFromWhere_def operatorPatterns_def comparisonPattern_def quotes_def
      unquoted_def conditionOf_def submatches_def TrimSpace_def isSpace_def convertBool_def
      removeAll_byte_def ToLower_def Let_def re_defs)

text \<open>
  Claim C7 says that on every path a LIKE predicate yields the operator \<open>contains\<close>
  with the pattern stripped of \<open>%\<close> and \<open>_\<close>. The ORM expression translator passes
  the pattern on as it is, for a \<open>clause.Like\<close> as for the expression
  \<open>name LIKE ?\<close>: the value is \<open>%zh%\<close>. The raw-SQL translator strips it to
  \<open>zh\<close>.
\<close>

theorem orm_like_keeps_wildcards:
  "buildFilter [Like (ClauseColumn ''name'') (GoString ''%zh%'')]
     = Some \<lparr>Conjunction = ''and'',
             Conditions = [\<lparr>FieldName = ''name'', Operator = ''contains'',
                            Value = [GoString ''%zh%'']\<rparr>]\<rparr>
   \<and> buildFilter [Expr ''name LIKE ?'' [GoString ''%zh%'']]
     = Some \<lparr>Conjunction = ''and'',
             Conditions = [\<lparr>FieldName = ''name'', Operator = ''contains'',
                            Value = [GoString ''%zh%'']\<rparr>]\<rparr>
   \<and> buildFilterFromWhere ''name LIKE '%zh%' ''
     = Some \<lparr>Conjunction = ''and'',
             Conditions = [\<lparr>FieldName = ''name'', Operator = ''contains'',
                            Value = [GoString ''zh'']\<rparr>]\<rparr>"
proof -
  have a: "buildFilter [Like (ClauseColumn ''name'') (GoString ''%zh%'')]
     = Some \<lparr>Conjunction = ''and'',
             Conditions = [\<lparr>FieldName = ''name'', Operator = ''contains'',
                            Value = [GoString ''%zh%'']\<rparr>]\<rparr>"
    by (simp add: buildFilter_def buildCondition_def buildLikeCondition_def List.map_filter_def)
  have b: "buildFilter [Expr ''name LIKE ?'' [GoString ''%zh%'']]
     = Some \<lparr>Conjunction = ''and'',
             Conditions = [\<lparr>FieldName = ''name'', Operator = ''contains'',
                            Value = [GoString ''%zh%'']\<rparr>]\<rparr>"
    by (simp add: buildFilter_def buildCondition_def buildExprCondition_def List.map_filter_def
        HasPrefix_def ToUpper_def asciiUpper_def TrimSpace_def isSpace_def)
  show ?thesis using a b raw_like_strips by simp
qed

end
